theory Spec2Isabelle
  imports Complex_Main
begin

section \<open>TCurlyArc: curly and wavy arcs\<close>

text \<open>
  A shallow embedding of \<^verbatim>\<open>graf2d/graf/src/TCurlyArc.cxx\<close>.

  Conventions of the embedding.
  \<^item> \<^verbatim>\<open>Double_t\<close> is \<open>real\<close>: rounding, infinities and NaN are not modelled. Where the
    rounding decides what an edge setter does, the setter is given a second time with every
    result rounded as the program rounds it. A quotient whose divisor is zero is an
    infinity or a NaN in the program and has no counterpart in \<open>real\<close>; the hit test
    returns an error value there, and elsewhere the model's quotient is the program's
    wherever the divisor is not zero.
  \<^item> \<^verbatim>\<open>Int_t\<close> is \<open>int\<close>: pixel coordinates are far from the 32-bit bounds and no
    property below depends on wrap-around.
  \<^item> A member function takes the object and returns the updated object.
  \<^item> Requests to the host that leave the arc and the drag state as they are
    (\<^verbatim>\<open>gPad->Modified()\<close>, \<^verbatim>\<open>gPad->Update()\<close>, \<^verbatim>\<open>gPad->SetCursor\<close>,
    \<^verbatim>\<open>gPad->ShowGuidelines\<close>, the \<^verbatim>\<open>gVirtualX\<close> drawing calls) are left out.
\<close>

subsection \<open>The host surface and the object\<close>

text \<open>
  The host surface \<^verbatim>\<open>gPad\<close> (class \<^verbatim>\<open>TVirtualPad\<close>) is not part of this source file.
  Its queries are fields of a record, so every statement below holds for any host.
\<close>

record TVirtualPad =
  GetWw :: int
  GetWh :: int
  GetAbsWNDC :: real
  GetAbsHNDC :: real
  GetX1 :: real
  GetX2 :: real
  GetY1 :: real
  GetY2 :: real
  XtoAbsPixel :: "real \<Rightarrow> int"
  YtoAbsPixel :: "real \<Rightarrow> int"
  XtoPixel :: "real \<Rightarrow> int"
  YtoPixel :: "real \<Rightarrow> int"
  VtoPixel :: "real \<Rightarrow> int"
  PixeltoX :: "int \<Rightarrow> real"
  PixeltoY :: "int \<Rightarrow> real"
  AbsPixeltoX :: "int \<Rightarrow> real"
  AbsPixeltoY :: "int \<Rightarrow> real"
  OpaqueMoving :: bool

text \<open>
  The data members of a \<^verbatim>\<open>TCurlyArc\<close>: those inherited from \<^verbatim>\<open>TCurlyLine\<close>
  (\<open>fX1\<close> to \<open>fIsCurly\<close>), the point arrays of the polyline that \<^verbatim>\<open>GetX()\<close> and
  \<^verbatim>\<open>GetY()\<close> return (\<open>xv\<close>, \<open>yv\<close>, named as \<^verbatim>\<open>Build\<close> names them), and the arc's own.
\<close>

record TCurlyArc =
  fX1 :: real
  fY1 :: real
  fX2 :: real
  fY2 :: real
  fWaveLength :: real
  fAmplitude :: real
  fNsteps :: int
  fIsCurly :: bool
  xv :: "real list"
  yv :: "real list"
  fR1 :: real
  fPhimin :: real
  fPhimax :: real
  fTheta :: real

text \<open>
  What surrounds the object: the global \<^verbatim>\<open>gPad\<close> (a null pointer is \<open>None\<close>) and the
  inherited \<^verbatim>\<open>TCurlyLine::Build\<close>, the waveform builder, which is not part of this source
  file. The builder reads the object and delivers the straight waveform: the number of
  steps and the two point arrays.
\<close>

record host =
  gPad :: "TVirtualPad option"
  TCurlyLine_Build :: "TCurlyArc \<Rightarrow> int \<times> real list \<times> real list"

text \<open>The static data members, with their initial values.\<close>

record statics =
  fgDefaultWaveLength :: real
  fgDefaultAmplitude :: real
  fgDefaultIsCurly :: bool

definition statics_init :: statics where
  "statics_init =
     \<lparr>fgDefaultWaveLength = 2 / 100, fgDefaultAmplitude = 1 / 100, fgDefaultIsCurly = True\<rparr>"

subsection \<open>Build\<close>

text \<open>Lines 77 to 90: the pixel-to-logical factors and the radius in pixels.\<close>

definition Build_pixeltoX :: "TVirtualPad option \<Rightarrow> real" where
  "Build_pixeltoX gp =
     (case gp of
        None \<Rightarrow> 1
      | Some p \<Rightarrow>
          (let ww = real_of_int (GetWw p);
               pxrange = GetAbsWNDC p * ww;
               xrange = GetX2 p - GetX1 p
           in xrange / pxrange))"

definition Build_pixeltoY :: "TVirtualPad option \<Rightarrow> real" where
  "Build_pixeltoY gp =
     (case gp of
        None \<Rightarrow> 1
      | Some p \<Rightarrow>
          (let wh = real_of_int (GetWh p);
               pyrange = - GetAbsHNDC p * wh;
               yrange = GetY2 p - GetY1 p
           in yrange / pyrange))"

definition Build_rPix :: "TVirtualPad option \<Rightarrow> real \<Rightarrow> real" where
  "Build_rPix gp r = (case gp of None \<Rightarrow> r | Some p \<Rightarrow> r / Build_pixeltoX gp)"

text \<open>
  The call \<^verbatim>\<open>TCurlyLine::Build()\<close>: the builder's result becomes the object's polyline.
\<close>

definition TCurlyLine_Build_call :: "host \<Rightarrow> TCurlyArc \<Rightarrow> TCurlyArc" where
  "TCurlyLine_Build_call h a =
     (case TCurlyLine_Build h a of (n, xs, ys) \<Rightarrow> a\<lparr>fNsteps := n, xv := xs, yv := ys\<rparr>)"

text \<open>
  Lines 105 to 113: the loop over the points, from index \<open>i\<close> on. Reading an array
  beyond its end is undefined in the program; the statements about the loop assume that
  the builder delivers at least \<open>fNsteps\<close> points.
\<close>

function Build_loop :: "real \<Rightarrow> real \<Rightarrow> real \<Rightarrow> int \<Rightarrow> TCurlyArc \<Rightarrow> TCurlyArc" where
  "Build_loop rPix pixeltoX pixeltoY i a =
     (if i < fNsteps a then
        (let angle = xv a ! nat i / rPix + fPhimin a * pi / 180;
             xx = (yv a ! nat i + rPix) * cos angle;
             yy = (yv a ! nat i + rPix) * sin angle;
             xx = xx * pixeltoX;
             yy = yy * \<bar>pixeltoY\<bar>
         in Build_loop rPix pixeltoX pixeltoY (i + 1)
              (a\<lparr>xv := (xv a)[nat i := xx + fX1 a], yv := (yv a)[nat i := yy + fY1 a]\<rparr>))
      else a)"
  by pat_completeness auto
termination
  by (relation "measure (\<lambda>(rPix, pixeltoX, pixeltoY, i, a). nat (fNsteps a - i))") auto

declare Build_loop.simps [simp del]

definition Build :: "host \<Rightarrow> TCurlyArc \<Rightarrow> TCurlyArc" where
  "Build h a =
     (let pixeltoX = Build_pixeltoX (gPad h);
          pixeltoY = Build_pixeltoY (gPad h);
          rPix = Build_rPix (gPad h) (fR1 a);
          dang = fPhimax a - fPhimin a;
          dang = (if dang < 0 then dang + 360 else dang);
          len = pi * fR1 a * dang / 180;
          x1sav = fX1 a;
          y1sav = fY1 a;
          a = a\<lparr>fX1 := 0, fY1 := 0\<rparr>;
          a = a\<lparr>fX2 := len, fY2 := 0\<rparr>;
          a = TCurlyLine_Build_call h a;
          a = a\<lparr>fX1 := x1sav, fY1 := y1sav\<rparr>
      in Build_loop rPix pixeltoX pixeltoY 0 a)"

subsection \<open>Constructors and the process-wide defaults\<close>

text \<open>
  The base-class part of a new object is set up by the default constructor of
  \<^verbatim>\<open>TCurlyLine\<close>, which is not part of this source file; \<open>base\<close> is the object as that
  constructor leaves it.
\<close>

definition TCurlyArc_default :: "TCurlyArc \<Rightarrow> TCurlyArc" where
  "TCurlyArc_default base = base\<lparr>fR1 := 0, fPhimin := 0, fPhimax := 0, fTheta := 0\<rparr>"

definition TCurlyArc_new ::
  "host \<Rightarrow> statics \<Rightarrow> TCurlyArc \<Rightarrow> real \<Rightarrow> real \<Rightarrow> real \<Rightarrow> real \<Rightarrow> real \<Rightarrow> real \<Rightarrow> real \<Rightarrow> TCurlyArc" where
  "TCurlyArc_new h s base x1 y1 rad phimin phimax wl amp =
     (let a = base\<lparr>fR1 := rad, fPhimin := phimin, fPhimax := phimax\<rparr>;
          a = a\<lparr>fX1 := x1\<rparr>;
          a = a\<lparr>fY1 := y1\<rparr>;
          a = a\<lparr>fIsCurly := fgDefaultIsCurly s\<rparr>;
          a = a\<lparr>fAmplitude := amp\<rparr>;
          a = a\<lparr>fWaveLength := wl\<rparr>;
          a = a\<lparr>fTheta := 0\<rparr>
      in Build h a)"

definition SetDefaultWaveLength :: "real \<Rightarrow> statics \<Rightarrow> statics" where
  "SetDefaultWaveLength WaveLength s = s\<lparr>fgDefaultWaveLength := WaveLength\<rparr>"

definition SetDefaultAmplitude :: "real \<Rightarrow> statics \<Rightarrow> statics" where
  "SetDefaultAmplitude Amplitude s = s\<lparr>fgDefaultAmplitude := Amplitude\<rparr>"

definition SetDefaultIsCurly :: "bool \<Rightarrow> statics \<Rightarrow> statics" where
  "SetDefaultIsCurly IsCurly s = s\<lparr>fgDefaultIsCurly := IsCurly\<rparr>"

definition GetDefaultWaveLength :: "statics \<Rightarrow> real" where
  "GetDefaultWaveLength s = fgDefaultWaveLength s"

definition GetDefaultAmplitude :: "statics \<Rightarrow> real" where
  "GetDefaultAmplitude s = fgDefaultAmplitude s"

definition GetDefaultIsCurly :: "statics \<Rightarrow> bool" where
  "GetDefaultIsCurly s = fgDefaultIsCurly s"

subsection \<open>DistancetoPrimitive\<close>

datatype arith_error = DivisionByZero

text \<open>The conversion \<^verbatim>\<open>Int_t(d)\<close> of a \<^verbatim>\<open>Double_t\<close>: the fraction is cut off.\<close>

definition Int_t_of :: "real \<Rightarrow> int" where
  "Int_t_of d = (if 0 \<le> d then \<lfloor>d\<rfloor> else \<lceil>d\<rceil>)"

text \<open>
  Modelled from the spec: \<^verbatim>\<open>TMath::ATan2\<close> is not part of this source file. It is the
  two-argument arctangent \<^verbatim>\<open>atan2(y, x)\<close>, the angle in \<open>(-\<pi>, \<pi>]\<close> of the point
  \<open>(x, y)\<close>, and 0 at the origin.
\<close>

definition ATan2 :: "real \<Rightarrow> real \<Rightarrow> real" where
  "ATan2 y x =
     (if 0 < x then arctan (y / x)
      else if x < 0 then (if 0 \<le> y then arctan (y / x) + pi else arctan (y / x) - pi)
      else if y = 0 then 0
      else if 0 < y then pi / 2
      else - pi / 2)"

definition DistancetoPrimitive :: "host \<Rightarrow> int \<Rightarrow> int \<Rightarrow> TCurlyArc \<Rightarrow> arith_error + int" where
  "DistancetoPrimitive h px py a =
     (case gPad h of
        None \<Rightarrow> Inr 9999
      | Some p \<Rightarrow>
          (let pxc = XtoAbsPixel p (fX1 a);
               pyc = YtoAbsPixel p (fY1 a);
               dist = sqrt (real_of_int ((pxc - px) * (pxc - px) + (pyc - py) * (pyc - py)))
           in if dist = 0 then Inl DivisionByZero
              else
                (let cosa = real_of_int (px - pxc) / dist;
                     sina = real_of_int (pyc - py) / dist;
                     phi = ATan2 sina cosa;
                     phi = (if phi < 0 then phi + 2 * pi else phi);
                     phi = phi * 180 / pi
                 in if (if fPhimax a > fPhimin a
                        then phi < fPhimin a \<or> phi > fPhimax a
                        else phi > fPhimin a \<and> phi < fPhimax a)
                    then Inr 9999
                    else
                      (let pxr = XtoPixel p (fR1 a) - XtoPixel p 0;
                           distr = \<bar>dist - real_of_int pxr\<bar>
                       in Inr (Int_t_of distr)))))"

subsection \<open>Setters\<close>

definition SetCenter :: "host \<Rightarrow> real \<Rightarrow> real \<Rightarrow> TCurlyArc \<Rightarrow> TCurlyArc" where
  "SetCenter h x y a = Build h (a\<lparr>fX1 := x, fY1 := y\<rparr>)"

definition SetRadius :: "host \<Rightarrow> real \<Rightarrow> TCurlyArc \<Rightarrow> TCurlyArc" where
  "SetRadius h x a = Build h (a\<lparr>fR1 := x\<rparr>)"

definition SetPhimin :: "host \<Rightarrow> real \<Rightarrow> TCurlyArc \<Rightarrow> TCurlyArc" where
  "SetPhimin h x a = Build h (a\<lparr>fPhimin := x\<rparr>)"

definition SetPhimax :: "host \<Rightarrow> real \<Rightarrow> TCurlyArc \<Rightarrow> TCurlyArc" where
  "SetPhimax h x a = Build h (a\<lparr>fPhimax := x\<rparr>)"

text \<open>
  Modelled from the spec: \<^verbatim>\<open>TCurlyLine::SetStartPoint\<close> and \<^verbatim>\<open>TCurlyLine::SetWavy\<close> are
  inherited and not part of this source file. The first assigns the start point, which is
  the arc's center, the second switches to the wavy mode; both rebuild the polyline
  (the virtual \<^verbatim>\<open>Build\<close> of the arc).
\<close>

definition SetStartPoint :: "host \<Rightarrow> real \<Rightarrow> real \<Rightarrow> TCurlyArc \<Rightarrow> TCurlyArc" where
  "SetStartPoint h x y a = Build h (a\<lparr>fX1 := x, fY1 := y\<rparr>)"

definition SetWavy :: "host \<Rightarrow> TCurlyArc \<Rightarrow> TCurlyArc" where
  "SetWavy h a = Build h (a\<lparr>fIsCurly := False\<rparr>)"

subsection \<open>The bounding box\<close>

text \<open>
  \<^verbatim>\<open>Rectangle_t\<close> and \<^verbatim>\<open>TPoint\<close> are declared outside this source file. The fields
  \<open>fX\<close>, \<open>fY\<close> of a rectangle and the coordinates of a point are \<^verbatim>\<open>Short_t\<close>, the
  fields \<open>fWidth\<close>, \<open>fHeight\<close> are \<^verbatim>\<open>UShort_t\<close>: 16 bits, signed and unsigned. A field
  holds its value as an \<open>int\<close>; storing an \<^verbatim>\<open>Int_t\<close> in it keeps the low 16 bits, which
  is written out. Read back in an expression, a field is promoted to \<^verbatim>\<open>Int_t\<close> with its
  value.
\<close>

definition Short_t_of :: "int \<Rightarrow> int" where
  "Short_t_of n = (n + 32768) mod 65536 - 32768"

definition UShort_t_of :: "int \<Rightarrow> int" where
  "UShort_t_of n = n mod 65536"

record Rectangle_t =
  fX :: int
  fY :: int
  fWidth :: int
  fHeight :: int

record TPoint =
  GetX :: int
  GetY :: int

definition GetBBox :: "host \<Rightarrow> TCurlyArc \<Rightarrow> Rectangle_t" where
  "GetBBox h a =
     (case gPad h of
        None \<Rightarrow> \<lparr>fX = 0, fY = 0, fWidth = 0, fHeight = 0\<rparr>
      | Some p \<Rightarrow>
          (let R2 = fR1 a * \<bar>GetY2 p - GetY1 p\<bar> / \<bar>GetX2 p - GetX1 p\<bar>
           in \<lparr>fX = Short_t_of (XtoPixel p (fX1 a - fR1 a)),
               fY = Short_t_of (YtoPixel p (fY1 a + R2)),
               fWidth = UShort_t_of (XtoPixel p (fX1 a + fR1 a) - XtoPixel p (fX1 a - fR1 a)),
               fHeight = UShort_t_of (YtoPixel p (fY1 a - R2) - YtoPixel p (fY1 a + R2))\<rparr>))"

definition GetBBoxCenter :: "host \<Rightarrow> TCurlyArc \<Rightarrow> TPoint" where
  "GetBBoxCenter h a =
     (case gPad h of
        None \<Rightarrow> \<lparr>GetX = 0, GetY = 0\<rparr>
      | Some p \<Rightarrow>
          \<lparr>GetX = Short_t_of (XtoPixel p (fX1 a)), GetY = Short_t_of (YtoPixel p (fY1 a))\<rparr>)"

definition SetBBoxCenter :: "host \<Rightarrow> TPoint \<Rightarrow> TCurlyArc \<Rightarrow> TCurlyArc" where
  "SetBBoxCenter h pt a =
     (case gPad h of
        None \<Rightarrow> a
      | Some p \<Rightarrow>
          Build h (a\<lparr>fX1 := PixeltoX p (GetX pt),
                      fY1 := PixeltoY p (GetY pt - VtoPixel p 0)\<rparr>))"

definition SetBBoxCenterX :: "host \<Rightarrow> int \<Rightarrow> TCurlyArc \<Rightarrow> TCurlyArc" where
  "SetBBoxCenterX h x a =
     (case gPad h of
        None \<Rightarrow> a
      | Some p \<Rightarrow> Build h (a\<lparr>fX1 := PixeltoX p x\<rparr>))"

definition SetBBoxCenterY :: "host \<Rightarrow> int \<Rightarrow> TCurlyArc \<Rightarrow> TCurlyArc" where
  "SetBBoxCenterY h y a =
     (case gPad h of
        None \<Rightarrow> a
      | Some p \<Rightarrow> Build h (a\<lparr>fY1 := PixeltoY p (y - VtoPixel p 0)\<rparr>))"

definition SetBBoxX1 :: "host \<Rightarrow> int \<Rightarrow> TCurlyArc \<Rightarrow> TCurlyArc" where
  "SetBBoxX1 h x a =
     (case gPad h of
        None \<Rightarrow> a
      | Some p \<Rightarrow>
          (let x1 = PixeltoX p x
           in if x1 > fX1 a + fR1 a then a
              else
                (let a = a\<lparr>fR1 := (fX1 a + fR1 a - x1) * (1 / 2)\<rparr>
                 in a\<lparr>fX1 := x1 + fR1 a\<rparr>)))"

definition SetBBoxX2 :: "host \<Rightarrow> int \<Rightarrow> TCurlyArc \<Rightarrow> TCurlyArc" where
  "SetBBoxX2 h x a =
     (case gPad h of
        None \<Rightarrow> a
      | Some p \<Rightarrow>
          (let x2 = PixeltoX p x
           in if x2 < fX1 a - fR1 a then a
              else
                (let a = a\<lparr>fR1 := (x2 - fX1 a + fR1 a) * (1 / 2)\<rparr>
                 in a\<lparr>fX1 := x2 - fR1 a\<rparr>)))"

definition SetBBoxY1 :: "host \<Rightarrow> int \<Rightarrow> TCurlyArc \<Rightarrow> TCurlyArc" where
  "SetBBoxY1 h y a =
     (case gPad h of
        None \<Rightarrow> a
      | Some p \<Rightarrow>
          (let R2 = fR1 a * \<bar>GetY2 p - GetY1 p\<bar> / \<bar>GetX2 p - GetX1 p\<bar>;
               y1 = PixeltoY p (y - VtoPixel p 0)
           in if y1 < fY1 a - R2 then a
              else
                (let a = a\<lparr>fR1 := (y1 - fY1 a + R2) * (1 / 2)
                                   / (\<bar>GetY2 p - GetY1 p\<bar> / \<bar>GetX2 p - GetX1 p\<bar>)\<rparr>
                 in a\<lparr>fY1 := y1 - R2\<rparr>)))"

definition SetBBoxY2 :: "host \<Rightarrow> int \<Rightarrow> TCurlyArc \<Rightarrow> TCurlyArc" where
  "SetBBoxY2 h y a =
     (case gPad h of
        None \<Rightarrow> a
      | Some p \<Rightarrow>
          (let R2 = fR1 a * \<bar>GetY2 p - GetY1 p\<bar> / \<bar>GetX2 p - GetX1 p\<bar>;
               y2 = PixeltoY p (y - VtoPixel p 0)
           in if y2 > fY1 a + R2 then a
              else
                (let a = a\<lparr>fR1 := (fY1 a + R2 - y2) * (1 / 2)
                                   / (\<bar>GetY2 p - GetY1 p\<bar> / \<bar>GetX2 p - GetX1 p\<bar>)\<rparr>
                 in a\<lparr>fY1 := y2 + R2\<rparr>)))"

subsection \<open>The edge setters in double arithmetic\<close>

text \<open>
  The edge setters test a guard and then compute the radius by another expression. Over
  \<open>real\<close> the two agree; in the program every result of an operation is rounded to a
  \<^verbatim>\<open>Double_t\<close>, and they need not. \<open>round_double\<close> is the rounding of IEEE 754 binary64
  arithmetic: to the nearest number with 53 significant bits, a tie to the one whose last
  bit is even. The bounds of the exponent (overflow, subnormal numbers) are not modelled.
\<close>

definition round_even :: "real \<Rightarrow> int" where
  "round_even x =
     (let n = \<lfloor>x\<rfloor>;
          d = x - real_of_int n
      in if d < 1 / 2 then n
         else if 1 / 2 < d then n + 1
         else if even n then n
         else n + 1)"

definition pow2 :: "int \<Rightarrow> real" where
  "pow2 e = (if 0 \<le> e then 2 ^ nat e else 1 / 2 ^ nat (- e))"

definition round_double :: "real \<Rightarrow> real" where
  "round_double x =
     (if x = 0 then 0
      else
        (let e = \<lfloor>log 2 \<bar>x\<bar>\<rfloor>;
             ulp = pow2 (e - 52)
         in real_of_int (round_even (x / ulp)) * ulp))"

text \<open>
  \<^verbatim>\<open>SetBBoxX2\<close> and \<^verbatim>\<open>SetBBoxY1\<close> with every result rounded, in the order in which the
  program evaluates: \<^verbatim>\<open>(x2-fX1+fR1)*0.5\<close> is \<^verbatim>\<open>((x2-fX1)+fR1)*0.5\<close>, and the aspect
  ratio is computed once for \<^verbatim>\<open>R2\<close> as \<^verbatim>\<open>(fR1*|dy|)/|dx|\<close> and once as the divisor
  \<^verbatim>\<open>|dy|/|dx|\<close>. The absolute value is exact.
\<close>

definition SetBBoxX2_double :: "host \<Rightarrow> int \<Rightarrow> TCurlyArc \<Rightarrow> TCurlyArc" where
  "SetBBoxX2_double h x a =
     (case gPad h of
        None \<Rightarrow> a
      | Some p \<Rightarrow>
          (let x2 = PixeltoX p x
           in if x2 < round_double (fX1 a - fR1 a) then a
              else
                (let a = a\<lparr>fR1 := round_double
                                   (round_double (round_double (x2 - fX1 a) + fR1 a) * (1 / 2))\<rparr>
                 in a\<lparr>fX1 := round_double (x2 - fR1 a)\<rparr>)))"

definition SetBBoxY1_double :: "host \<Rightarrow> int \<Rightarrow> TCurlyArc \<Rightarrow> TCurlyArc" where
  "SetBBoxY1_double h y a =
     (case gPad h of
        None \<Rightarrow> a
      | Some p \<Rightarrow>
          (let R2 = round_double
                      (round_double (fR1 a * \<bar>round_double (GetY2 p - GetY1 p)\<bar>)
                         / \<bar>round_double (GetX2 p - GetX1 p)\<bar>);
               y1 = PixeltoY p (y - VtoPixel p 0)
           in if y1 < round_double (fY1 a - R2) then a
              else
                (let a = a\<lparr>fR1 := round_double
                                   (round_double (round_double (round_double (y1 - fY1 a) + R2) * (1 / 2))
                                      / round_double (\<bar>round_double (GetY2 p - GetY1 p)\<bar>
                                                       / \<bar>round_double (GetX2 p - GetX1 p)\<bar>))\<rparr>
                 in a\<lparr>fY1 := round_double (y1 - R2)\<rparr>)))"

subsection \<open>ExecuteEvent\<close>

text \<open>
  The event codes are declared outside this source file; the six that \<^verbatim>\<open>ExecuteEvent\<close>
  distinguishes are constructors, every other code is \<open>kOtherEvent\<close>.
\<close>

datatype EEventType =
  kButton1Down | kButton1Up | kButton1Motion | kMouseMotion | kArrowKeyPress | kArrowKeyRelease
  | kOtherEvent

text \<open>
  The function's static variables: the working center \<open>px1\<close>, \<open>py1\<close> and working radius
  \<open>r1\<close> in pixels, the last cursor position, the active handle and the handle positions.
  The static arrays \<^verbatim>\<open>x\<close>, \<^verbatim>\<open>y\<close> and \<^verbatim>\<open>npe\<close> are only drawn and are left out.
\<close>

record drag =
  px1 :: int
  py1 :: int
  r1 :: int
  pxold :: int
  pyold :: int
  pTop :: bool
  pL :: bool
  pR :: bool
  pBot :: bool
  pINSIDE :: bool
  pTx :: int
  pTy :: int
  pLx :: int
  pLy :: int
  pRx :: int
  pRy :: int
  pBx :: int
  pBy :: int

text \<open>
  Lines 205 to 214, the part of the button-down case that assigns. The static variables
  are assigned in the order of the source; a value read back from one of them is the
  value just assigned, written here as a local name.
\<close>

definition ExecuteEvent_Button1Down :: "TVirtualPad \<Rightarrow> TCurlyArc \<Rightarrow> drag \<Rightarrow> drag" where
  "ExecuteEvent_Button1Down p a d =
     (let px1' = XtoAbsPixel p (fX1 a);
          py1' = YtoAbsPixel p (fY1 a);
          pLx' = XtoAbsPixel p (- fR1 a + fX1 a);
          pRx' = XtoAbsPixel p (fR1 a + fX1 a);
          r1' = \<bar>pLx' - pRx'\<bar> div 2
      in d\<lparr>px1 := px1', py1 := py1', pTx := px1', pBx := px1', pLy := py1', pRy := py1',
           pLx := pLx', pRx := pRx', r1 := r1',
           pTy := YtoAbsPixel p (fY1 a) + r1', pBy := YtoAbsPixel p (fY1 a) - r1'\<rparr>)"

text \<open>Lines 237 to 272, the mouse-motion case; \<^verbatim>\<open>kMaxDiff\<close> is 10.\<close>

definition ExecuteEvent_MouseMotion ::
  "TVirtualPad \<Rightarrow> int \<Rightarrow> int \<Rightarrow> TCurlyArc \<Rightarrow> drag \<Rightarrow> drag" where
  "ExecuteEvent_MouseMotion p px py a d =
     (let kMaxDiff = 10;
          px1' = XtoAbsPixel p (fX1 a);
          py1' = YtoAbsPixel p (fY1 a);
          pLx' = XtoAbsPixel p (- fR1 a + fX1 a);
          pRx' = XtoAbsPixel p (fR1 a + fX1 a);
          pTy' = YtoAbsPixel p (fY1 a) + \<bar>pLx' - pRx'\<bar> div 2;
          pBy' = YtoAbsPixel p (fY1 a) - \<bar>pLx' - pRx'\<bar> div 2;
          d = d\<lparr>px1 := px1', py1 := py1', pTx := px1', pBx := px1', pLy := py1', pRy := py1',
                pLx := pLx', pRx := pRx', pTy := pTy', pBy := pBy',
                pTop := False, pL := False, pR := False, pBot := False, pINSIDE := False\<rparr>;
          d = (if \<bar>px - px1'\<bar> < kMaxDiff \<and> \<bar>py - pTy'\<bar> < kMaxDiff then d\<lparr>pTop := True\<rparr>
               else if \<bar>px - px1'\<bar> < kMaxDiff \<and> \<bar>py - pBy'\<bar> < kMaxDiff then d\<lparr>pBot := True\<rparr>
               else if \<bar>py - py1'\<bar> < kMaxDiff \<and> \<bar>px - pLx'\<bar> < kMaxDiff then d\<lparr>pL := True\<rparr>
               else if \<bar>py - py1'\<bar> < kMaxDiff \<and> \<bar>px - pRx'\<bar> < kMaxDiff then d\<lparr>pR := True\<rparr>
               else d\<lparr>pINSIDE := True\<rparr>)
      in d\<lparr>pxold := px, pyold := py\<rparr>)"

text \<open>
  Lines 297 to 391, the button-motion case, in its five steps: the working radius follows
  the cursor at a resize handle; in the opaque mode the working geometry is committed at
  once (otherwise only markers are drawn); the working center follows the cursor at the
  move handle; in the opaque mode the center is committed at once; the handle positions
  and the last cursor position are brought up to date.
\<close>

definition Button1Motion_radius :: "int \<Rightarrow> int \<Rightarrow> drag \<Rightarrow> drag" where
  "Button1Motion_radius px py d =
     (let d = (if pTop d then d\<lparr>r1 := r1 d + (py - pyold d)\<rparr> else d);
          d = (if pBot d then d\<lparr>r1 := r1 d - (py - pyold d)\<rparr> else d);
          d = (if pL d then d\<lparr>r1 := r1 d - (px - pxold d)\<rparr> else d);
          d = (if pR d then d\<lparr>r1 := r1 d + (px - pxold d)\<rparr> else d)
      in d)"

definition Button1Motion_resize :: "host \<Rightarrow> TVirtualPad \<Rightarrow> drag \<Rightarrow> TCurlyArc \<Rightarrow> TCurlyArc" where
  "Button1Motion_resize h p d a =
     (if pTop d \<or> pBot d \<or> pL d \<or> pR d then
        (if OpaqueMoving p then
           SetRadius h (\<bar>AbsPixeltoX p (px1 d - r1 d) - AbsPixeltoX p (px1 d + r1 d)\<bar> / 2)
             (SetStartPoint h (AbsPixeltoX p (px1 d)) (AbsPixeltoY p (py1 d)) a)
         else a)
      else a)"

definition Button1Motion_center :: "int \<Rightarrow> int \<Rightarrow> drag \<Rightarrow> drag" where
  "Button1Motion_center px py d =
     (if pINSIDE d then
        (let dpx = px - pxold d;
             dpy = py - pyold d
         in d\<lparr>px1 := px1 d + dpx, py1 := py1 d + dpy\<rparr>)
      else d)"

definition Button1Motion_move :: "host \<Rightarrow> TVirtualPad \<Rightarrow> drag \<Rightarrow> TCurlyArc \<Rightarrow> TCurlyArc" where
  "Button1Motion_move h p d a =
     (if pINSIDE d then
        (if OpaqueMoving p then SetStartPoint h (AbsPixeltoX p (px1 d)) (AbsPixeltoY p (py1 d)) a
         else a)
      else a)"

definition Button1Motion_handles :: "int \<Rightarrow> int \<Rightarrow> drag \<Rightarrow> drag" where
  "Button1Motion_handles px py d =
     d\<lparr>pTx := px1 d, pBx := px1 d, pRx := px1 d + r1 d, pLx := px1 d - r1 d,
       pRy := py1 d, pLy := py1 d, pTy := py1 d - r1 d, pBy := py1 d + r1 d,
       pxold := px, pyold := py\<rparr>"

definition ExecuteEvent_Button1Motion ::
  "host \<Rightarrow> TVirtualPad \<Rightarrow> int \<Rightarrow> int \<Rightarrow> drag \<times> TCurlyArc \<Rightarrow> drag \<times> TCurlyArc" where
  "ExecuteEvent_Button1Motion h p px py da =
     (let d = Button1Motion_radius px py (fst da);
          a = Button1Motion_resize h p d (snd da);
          d = Button1Motion_center px py d;
          a = Button1Motion_move h p d a;
          d = Button1Motion_handles px py d
      in (d, a))"

text \<open>Lines 394 to 406, the button-up case.\<close>

definition ExecuteEvent_Button1Up :: "host \<Rightarrow> TVirtualPad \<Rightarrow> drag \<Rightarrow> TCurlyArc \<Rightarrow> TCurlyArc" where
  "ExecuteEvent_Button1Up h p d a =
     (let opaque = OpaqueMoving p;
          a = (if opaque then a
               else
                 (let a = a\<lparr>fX1 := AbsPixeltoX p (px1 d)\<rparr>;
                      a = a\<lparr>fY1 := AbsPixeltoY p (py1 d)\<rparr>;
                      rLx = AbsPixeltoX p (px1 d + r1 d);
                      rRx = AbsPixeltoX p (px1 d - r1 d)
                  in a\<lparr>fR1 := \<bar>rRx - rLx\<bar> / 2\<rparr>))
      in Build h a)"

text \<open>
  The whole function, on the pair of the static variables and the object. The button-down
  and arrow-key-press cases run on into the mouse-motion case.
\<close>

definition ExecuteEvent ::
  "host \<Rightarrow> EEventType \<Rightarrow> int \<Rightarrow> int \<Rightarrow> drag \<times> TCurlyArc \<Rightarrow> drag \<times> TCurlyArc" where
  "ExecuteEvent h event px py da =
     (case gPad h of
        None \<Rightarrow> da
      | Some p \<Rightarrow>
          (case event of
             kArrowKeyPress \<Rightarrow>
               (ExecuteEvent_MouseMotion p px py (snd da)
                  (ExecuteEvent_Button1Down p (snd da) (fst da)), snd da)
           | kButton1Down \<Rightarrow>
               (ExecuteEvent_MouseMotion p px py (snd da)
                  (ExecuteEvent_Button1Down p (snd da) (fst da)), snd da)
           | kMouseMotion \<Rightarrow> (ExecuteEvent_MouseMotion p px py (snd da) (fst da), snd da)
           | kArrowKeyRelease \<Rightarrow> ExecuteEvent_Button1Motion h p px py da
           | kButton1Motion \<Rightarrow> ExecuteEvent_Button1Motion h p px py da
           | kButton1Up \<Rightarrow> (fst da, ExecuteEvent_Button1Up h p (fst da) (snd da))
           | kOtherEvent \<Rightarrow> da))"

subsection \<open>SavePrimitive\<close>

text \<open>
  The statements that \<^verbatim>\<open>SavePrimitive\<close> writes, one constructor per statement. The
  construction call carries whether it declares the variable (\<^verbatim>\<open>TCurlyArc *\<close> is written
  when the class was not saved before) and the seven values in the order written. The
  printed form of a number, which keeps a few digits only, is not modelled: a statement
  carries the value itself. The line attributes are written by the inherited
  \<^verbatim>\<open>SaveLineAttributes\<close>.
\<close>

datatype stmt =
  New_TCurlyArc bool real real real real real real real
  | Call_SetWavy
  | Line_Attributes
  | Call_Draw

definition SavePrimitive :: "bool \<Rightarrow> TCurlyArc \<Rightarrow> stmt list" where
  "SavePrimitive classSaved a =
     [New_TCurlyArc (\<not> classSaved) (fX1 a) (fY1 a) (fR1 a) (fPhimin a) (fPhimax a)
        (fWaveLength a) (fAmplitude a)]
     @ (if \<not> fIsCurly a then [Call_SetWavy] else [])
     @ [Line_Attributes]
     @ [Call_Draw]"

text \<open>
  Modelled from the spec: the host scripting layer that executes the statements again is
  external. It runs them in order on the variable \<^verbatim>\<open>curlyarc\<close>: the construction call
  constructs the object from the seven values, the toggle calls \<^verbatim>\<open>SetWavy\<close>, the line
  attributes and the draw statement leave the arc's fields as they are.
\<close>

fun exec_stmt :: "host \<Rightarrow> statics \<Rightarrow> TCurlyArc \<Rightarrow> stmt \<Rightarrow> TCurlyArc option \<Rightarrow> TCurlyArc option" where
  "exec_stmt h s base (New_TCurlyArc decl x1 y1 rad phimin phimax wl amp) curlyarc =
     Some (TCurlyArc_new h s base x1 y1 rad phimin phimax wl amp)"
| "exec_stmt h s base Call_SetWavy curlyarc = map_option (SetWavy h) curlyarc"
| "exec_stmt h s base Line_Attributes curlyarc = curlyarc"
| "exec_stmt h s base Call_Draw curlyarc = curlyarc"

definition exec_stmts :: "host \<Rightarrow> statics \<Rightarrow> TCurlyArc \<Rightarrow> stmt list \<Rightarrow> TCurlyArc option" where
  "exec_stmts h s base stmts = fold (exec_stmt h s base) stmts None"

subsection \<open>Pads on which the aspect ratio is defined\<close>

text \<open>
  The vertical edge setters divide by the ratio of the pad's logical ranges. A pad is
  degenerate when a pixel range or a logical range is zero.
\<close>

definition pad_nondegenerate :: "TVirtualPad \<Rightarrow> bool" where
  "pad_nondegenerate p =
     (GetAbsWNDC p * real_of_int (GetWw p) \<noteq> 0 \<and> GetAbsHNDC p * real_of_int (GetWh p) \<noteq> 0
      \<and> GetX2 p \<noteq> GetX1 p \<and> GetY2 p \<noteq> GetY1 p)"

subsection \<open>A concrete host and concrete arcs\<close>

text \<open>
  A pad of 200 by 100 pixels that shows the logical rectangle from (0, 0) to (100, 50):
  two pixels for each logical unit, the pixel row counted from the top. Its waveform
  builder delivers two points, at offsets (0, 0) and (0, 1).
\<close>

definition pad0 :: TVirtualPad where
  "pad0 =
     \<lparr>GetWw = 200, GetWh = 100, GetAbsWNDC = 1, GetAbsHNDC = 1,
      GetX1 = 0, GetX2 = 100, GetY1 = 0, GetY2 = 50,
      XtoAbsPixel = (\<lambda>x. \<lfloor>2 * x\<rfloor>),
      YtoAbsPixel = (\<lambda>y. \<lfloor>100 - 2 * y\<rfloor>),
      XtoPixel = (\<lambda>x. \<lfloor>2 * x\<rfloor>),
      YtoPixel = (\<lambda>y. \<lfloor>100 - 2 * y\<rfloor>),
      VtoPixel = (\<lambda>v. \<lfloor>100 * (1 - v)\<rfloor>),
      PixeltoX = (\<lambda>px. real_of_int px / 2),
      PixeltoY = (\<lambda>py. - real_of_int py / 2),
      AbsPixeltoX = (\<lambda>px. real_of_int px / 2),
      AbsPixeltoY = (\<lambda>py. (100 - real_of_int py) / 2),
      OpaqueMoving = False\<rparr>"

definition host0 :: host where
  "host0 = \<lparr>gPad = Some pad0, TCurlyLine_Build = (\<lambda>a. (2, [0, 0], [0, 1]))\<rparr>"

definition base0 :: TCurlyArc where
  "base0 =
     \<lparr>fX1 = 0, fY1 = 0, fX2 = 0, fY2 = 0, fWaveLength = 0, fAmplitude = 0, fNsteps = 0,
      fIsCurly = True, xv = [], yv = [], fR1 = 0, fPhimin = 0, fPhimax = 0, fTheta = 0\<rparr>"

text \<open>An arc as \<^verbatim>\<open>Build\<close> leaves it on this host: center (50, 25), radius 10, 0 to 180 degrees.\<close>

definition arc0 :: TCurlyArc where
  "arc0 =
     \<lparr>fX1 = 50, fY1 = 25, fX2 = pi * 10, fY2 = 0, fWaveLength = 2 / 100, fAmplitude = 1 / 100,
      fNsteps = 2, fIsCurly = True, xv = [60, 121 / 2], yv = [25, 25],
      fR1 = 10, fPhimin = 0, fPhimax = 180, fTheta = 0\<rparr>"

text \<open>The same circle with the span from 270 degrees through 360 to 90 degrees.\<close>

definition arc_wrap :: TCurlyArc where
  "arc_wrap = arc0\<lparr>fPhimin := 270, fPhimax := 90\<rparr>"



text \<open>
  An arc whose center and radius are the numbers that the literals \<^verbatim>\<open>0.8\<close> and \<^verbatim>\<open>0.3\<close>
  denote in the program, and one with the radius that \<^verbatim>\<open>0.6\<close> denotes.
\<close>

definition arc_08_03 :: TCurlyArc where
  "arc_08_03 = arc0\<lparr>fX1 := 3602879701896397 / 2 ^ 52, fR1 := 5404319552844595 / 2 ^ 54\<rparr>"

definition arc_08_06 :: TCurlyArc where
  "arc_08_06 = arc0\<lparr>fY1 := 3602879701896397 / 2 ^ 52, fR1 := 5404319552844595 / 2 ^ 53\<rparr>"




text \<open>Static variables at a button release: a working radius of -6 pixels around (100, 50).\<close>

definition drag0 :: drag where
  "drag0 =
     \<lparr>px1 = 100, py1 = 50, r1 = - 6, pxold = 0, pyold = 0,
      pTop = False, pL = True, pR = False, pBot = False, pINSIDE = False,
      pTx = 0, pTy = 0, pLx = 0, pLy = 0, pRx = 0, pRy = 0, pBx = 0, pBy = 0\<rparr>"

section \<open>Properties\<close>

subsection \<open>What Build leaves as it is\<close>

text \<open>The loop of \<^verbatim>\<open>Build\<close> writes the two point arrays and nothing else.\<close>

lemma Build_loop_frame:
  "\<exists>xs ys. Build_loop rPix pixeltoX pixeltoY i a = a\<lparr>xv := xs, yv := ys\<rparr>"
proof (induction rPix pixeltoX pixeltoY i a rule: Build_loop.induct)
  case (1 rPix pixeltoX pixeltoY i a)
  show ?case
  proof (cases "i < fNsteps a")
    case True
    with 1 show ?thesis
      by (subst Build_loop.simps) (simp add: Let_def)
  next
    case False
    then have "Build_loop rPix pixeltoX pixeltoY i a = a"
      by (subst Build_loop.simps) simp
    then show ?thesis
      by (intro exI [of _ "xv a"] exI [of _ "yv a"]) simp
  qed
qed

lemma Build_loop_fields:
  "fX1 (Build_loop rPix pixeltoX pixeltoY i a) = fX1 a"
  "fY1 (Build_loop rPix pixeltoX pixeltoY i a) = fY1 a"
  "fX2 (Build_loop rPix pixeltoX pixeltoY i a) = fX2 a"
  "fY2 (Build_loop rPix pixeltoX pixeltoY i a) = fY2 a"
  "fWaveLength (Build_loop rPix pixeltoX pixeltoY i a) = fWaveLength a"
  "fAmplitude (Build_loop rPix pixeltoX pixeltoY i a) = fAmplitude a"
  "fNsteps (Build_loop rPix pixeltoX pixeltoY i a) = fNsteps a"
  "fIsCurly (Build_loop rPix pixeltoX pixeltoY i a) = fIsCurly a"
  "fR1 (Build_loop rPix pixeltoX pixeltoY i a) = fR1 a"
  "fPhimin (Build_loop rPix pixeltoX pixeltoY i a) = fPhimin a"
  "fPhimax (Build_loop rPix pixeltoX pixeltoY i a) = fPhimax a"
  "fTheta (Build_loop rPix pixeltoX pixeltoY i a) = fTheta a"
  using Build_loop_frame [of rPix pixeltoX pixeltoY i a] by auto

lemma Build_fields:
  "fX1 (Build h a) = fX1 a"
  "fY1 (Build h a) = fY1 a"
  "fY2 (Build h a) = 0"
  "fWaveLength (Build h a) = fWaveLength a"
  "fAmplitude (Build h a) = fAmplitude a"
  "fIsCurly (Build h a) = fIsCurly a"
  "fR1 (Build h a) = fR1 a"
  "fPhimin (Build h a) = fPhimin a"
  "fPhimax (Build h a) = fPhimax a"
  "fTheta (Build h a) = fTheta a"
  by (simp_all add: Build_def Let_def TCurlyLine_Build_call_def Build_loop_fields split: prod.splits)

subsection \<open>What the loop of Build computes\<close>



subsection \<open>The segment handed to the waveform builder\<close>

text \<open>
  Claim C4. For every \<open>fPhimin\<close> and \<open>fPhimax\<close>, \<^verbatim>\<open>Build\<close> takes the sweep
  \<open>dang = fPhimax - fPhimin\<close>, adds 360 when it is negative, and calls the waveform
  builder on the object with the center set to (0, 0) and the end point set to
  \<open>(\<pi> * fR1 * dang / 180, 0)\<close>: the polyline is the loop's image of what the builder delivers
  for that segment. After the call the center is the one the object had before.
\<close>

theorem Build_passes_segment:
  "let dang = (if fPhimax a - fPhimin a < 0 then fPhimax a - fPhimin a + 360
               else fPhimax a - fPhimin a);
       seg = a\<lparr>fX1 := 0, fY1 := 0, fX2 := pi * fR1 a * dang / 180, fY2 := 0\<rparr>
   in Build h a =
        Build_loop (Build_rPix (gPad h) (fR1 a)) (Build_pixeltoX (gPad h))
          (Build_pixeltoY (gPad h)) 0
          ((TCurlyLine_Build_call h seg)\<lparr>fX1 := fX1 a, fY1 := fY1 a\<rparr>)
      \<and> fNsteps (Build h a) = fst (TCurlyLine_Build h seg)
      \<and> fX1 (Build h a) = fX1 a \<and> fY1 (Build h a) = fY1 a"
proof -
  have call: "fNsteps (TCurlyLine_Build_call h b) = fst (TCurlyLine_Build h b)" for b
    by (simp add: TCurlyLine_Build_call_def split: prod.splits)
  show ?thesis
    by (simp add: Let_def Build_fields)
       (simp add: Build_def Let_def Build_loop_fields call)
qed

subsection \<open>The image of a waveform point\<close>



subsection \<open>The radius under ExecuteEvent\<close>

text \<open>
  At a button release outside the opaque mode the radius assigned is the absolute
  half-width \<open>\<bar>AbsPixeltoX (px1 - r1) - AbsPixeltoX (px1 + r1)\<bar> / 2\<close>, for every working
  radius \<open>r1\<close>; in the opaque mode the release leaves the radius, and a motion event
  assigns an absolute half-width. An arc whose radius is not negative keeps such a radius
  under every event.
\<close>

lemma setter_fR1:
  "fR1 (SetRadius h x a) = x"
  "fR1 (SetStartPoint h x y a) = fR1 a"
  "fR1 (SetCenter h x y a) = fR1 a"
  by (simp_all add: SetRadius_def SetStartPoint_def SetCenter_def Build_fields)

lemma Button1Up_fR1:
  "fR1 (ExecuteEvent_Button1Up h p d b) =
     (if OpaqueMoving p then fR1 b
      else \<bar>AbsPixeltoX p (px1 d - r1 d) - AbsPixeltoX p (px1 d + r1 d)\<bar> / 2)"
  by (simp add: ExecuteEvent_Button1Up_def Let_def Build_fields)

lemma Button1Motion_fR1:
  "0 \<le> fR1 a \<Longrightarrow> 0 \<le> fR1 (snd (ExecuteEvent_Button1Motion h p px py (d, a)))"
  by (simp add: ExecuteEvent_Button1Motion_def Button1Motion_resize_def Button1Motion_move_def
      Let_def setter_fR1)

lemma ExecuteEvent_fR1:
  "0 \<le> fR1 a \<Longrightarrow> 0 \<le> fR1 (snd (ExecuteEvent h event px py (d, a)))"
  by (cases event)
     (simp_all add: ExecuteEvent_def Button1Up_fR1 Button1Motion_fR1 split: option.splits)

subsection \<open>An accepted edge move that leaves a negative radius\<close>

text \<open>
  The exponent of a number between two neighbouring powers of two, and with it the
  rounding of the number, can be read off.
\<close>

lemma pow2_powr: "pow2 e = 2 powr real_of_int e"
  by (simp add: pow2_def powr_real_of_int field_simps)

lemma floor_log2:
  assumes "0 < x" and "pow2 e \<le> x" and "x < pow2 (e + 1)"
  shows "\<lfloor>log 2 x\<rfloor> = e"
proof -
  have "real_of_int e \<le> log 2 x"
    using assms(1,2) by (simp add: pow2_powr le_log_iff)
  moreover have "log 2 x < real_of_int e + 1"
    using assms(1,3) by (simp add: pow2_powr log_less_iff add.commute)
  ultimately show ?thesis
    by (simp add: floor_eq_iff)
qed

lemma round_double_at:
  assumes "pow2 e \<le> \<bar>x\<bar>" and "\<bar>x\<bar> < pow2 (e + 1)"
  shows "round_double x = real_of_int (round_even (x / pow2 (e - 52))) * pow2 (e - 52)"
proof -
  have "0 < pow2 e"
    by (simp add: pow2_def)
  with assms(1) have "0 < \<bar>x\<bar>" by linarith
  then have "\<lfloor>log 2 \<bar>x\<bar>\<rfloor> = e" "x \<noteq> 0"
    using floor_log2 [OF _ assms] by auto
  then show ?thesis
    by (simp add: round_double_def Let_def)
qed

text \<open>
  The roundings that the two edge moves below go through. The literals \<^verbatim>\<open>0.8\<close>,
  \<^verbatim>\<open>0.3\<close> and \<^verbatim>\<open>0.6\<close> denote numbers a little off the decimal ones; the difference of
  the first two lies exactly half way between 1/2 and the next number above it and is
  rounded to 1/2.
\<close>

lemma literal_08: "round_double (8 / 10) = 3602879701896397 / 2 ^ 52"
  by (subst round_double_at [where e = "- 1"]) (simp_all add: pow2_def round_even_def)

lemma literal_03: "round_double (3 / 10) = 5404319552844595 / 2 ^ 54"
  by (subst round_double_at [where e = "- 2"]) (simp_all add: pow2_def round_even_def)

lemma literal_06: "round_double (6 / 10) = 5404319552844595 / 2 ^ 53"
  by (subst round_double_at [where e = "- 1"]) (simp_all add: pow2_def round_even_def)

lemma guard_X2:
  "round_double (3602879701896397 / 2 ^ 52 - 5404319552844595 / 2 ^ 54) = 1 / 2"
  by (subst round_double_at [where e = "- 1"]) (simp_all add: pow2_def round_even_def)

lemma update_X2_1:
  "round_double (1 / 2 - 3602879701896397 / 2 ^ 52) = - (1351079888211149 / 2 ^ 52)"
  by (subst round_double_at [where e = "- 2"]) (simp_all add: pow2_def round_even_def)

lemma update_X2_2:
  "round_double (- (1351079888211149 / 2 ^ 52) + 5404319552844595 / 2 ^ 54) = - (1 / 2 ^ 54)"
  by (subst round_double_at [where e = "- 54"]) (simp_all add: pow2_def round_even_def)

lemma update_X2_3:
  "round_double (- (1 / 2 ^ 54) * (1 / 2)) = - (1 / 2 ^ 55)"
  by (subst round_double_at [where e = "- 55"]) (simp_all add: pow2_def round_even_def)

lemma update_X2_4:
  "round_double (18014398509481985 / 36028797018963968) = 1 / 2"
  by (subst round_double_at [where e = "- 1"]) (simp_all add: pow2_def round_even_def)

lemma range_Y1:
  "round_double (50 - 0) = 50" "round_double (100 - 0) = 100"
  "round_double (50 / 100) = 1 / 2"
proof -
  show "round_double (50 - 0) = 50"
    by (subst round_double_at [where e = 5]) (simp_all add: pow2_def round_even_def)
  show "round_double (100 - 0) = 100"
    by (subst round_double_at [where e = 6]) (simp_all add: pow2_def round_even_def)
  show "round_double (50 / 100) = 1 / 2"
    by (subst round_double_at [where e = "- 1"]) (simp_all add: pow2_def round_even_def)
qed

lemma R2_Y1_1: "round_double (5404319552844595 / 2 ^ 53 * 50) = 30"
  by (subst round_double_at [where e = 4]) (simp_all add: pow2_def round_even_def)

lemma R2_Y1_2: "round_double (30 / 100) = 5404319552844595 / 2 ^ 54"
  by (subst round_double_at [where e = "- 2"]) (simp_all add: pow2_def round_even_def)

lemma update_Y1_4: "round_double (- (1 / 2 ^ 55) / (1 / 2)) = - (1 / 2 ^ 54)"
  by (subst round_double_at [where e = "- 54"]) (simp_all add: pow2_def round_even_def)

lemma update_Y1_5:
  "round_double (1 / 2 - 5404319552844595 / 2 ^ 54) = 3602879701896397 / 2 ^ 54"
  by (subst round_double_at [where e = "- 3"]) (simp_all add: pow2_def round_even_def)

lemma SetBBoxX2_double_08_03:
  "SetBBoxX2_double host0 1 arc_08_03 = arc_08_03\<lparr>fR1 := - (1 / 2 ^ 55), fX1 := 1 / 2\<rparr>"
proof -
  have p: "gPad host0 = Some pad0" "PixeltoX pad0 1 = 1 / 2"
    "fX1 arc_08_03 = 3602879701896397 / 2 ^ 52" "fR1 arc_08_03 = 5404319552844595 / 2 ^ 54"
    by (simp_all add: host0_def pad0_def arc_08_03_def)
  show ?thesis
    by (simp only: SetBBoxX2_double_def Let_def p option.case guard_X2 update_X2_1 update_X2_2
        update_X2_3 TCurlyArc.simps) (simp add: update_X2_4)
qed

lemma SetBBoxY1_double_08_06:
  "SetBBoxY1_double host0 99 arc_08_06 =
     arc_08_06\<lparr>fR1 := - (1 / 2 ^ 54), fY1 := 3602879701896397 / 2 ^ 54\<rparr>"
proof -
  have p: "gPad host0 = Some pad0" "PixeltoY pad0 (99 - VtoPixel pad0 0) = 1 / 2"
    "GetY2 pad0 = 50" "GetY1 pad0 = 0" "GetX2 pad0 = 100" "GetX1 pad0 = 0"
    "fY1 arc_08_06 = 3602879701896397 / 2 ^ 52" "fR1 arc_08_06 = 5404319552844595 / 2 ^ 53"
    by (simp_all add: host0_def pad0_def arc_08_06_def)
  show ?thesis
    by (simp only: SetBBoxY1_double_def Let_def p option.case abs_numeral range_Y1 R2_Y1_1
        R2_Y1_2 guard_X2 update_X2_1 update_X2_2 update_X2_3 update_Y1_4 update_Y1_5
        TCurlyArc.simps) simp
qed

lemma exact_arithmetic_refuses:
  "SetBBoxX2 host0 1 arc_08_03 = arc_08_03" "SetBBoxY1 host0 99 arc_08_06 = arc_08_06"
  by (simp_all add: SetBBoxX2_def SetBBoxY1_def host0_def pad0_def arc_08_03_def arc_08_06_def
      arc0_def Let_def)

text \<open>
  Claim C8, at an input where the program and the claim part. On the concrete host the
  arc has the center x = 0.8 and the radius 0.3, and \<^verbatim>\<open>SetBBoxX2\<close> is called with the
  pixel 1, the logical coordinate 1/2. The guard compares 1/2 with the rounded left edge,
  which is 1/2, and accepts the move; the radius assigned is \<open>- 1 / 2 ^ 55\<close>, a negative
  number. \<^verbatim>\<open>SetBBoxY1\<close> with the row 99 on the arc with the center y = 0.8 and the radius
  0.6 assigns \<open>- 1 / 2 ^ 54\<close> likewise. In exact arithmetic the left edge lies above 1/2
  and both moves are refused.
\<close>

theorem edge_setter_leaves_negative_radius:
  "round_double (8 / 10) = fX1 arc_08_03 \<and> round_double (3 / 10) = fR1 arc_08_03
   \<and> 0 \<le> fR1 arc_08_03 \<and> PixeltoX pad0 1 = 1 / 2
   \<and> fR1 (SetBBoxX2_double host0 1 arc_08_03) = - (1 / 2 ^ 55)
   \<and> fR1 (SetBBoxX2_double host0 1 arc_08_03) < 0
   \<and> round_double (8 / 10) = fY1 arc_08_06 \<and> round_double (6 / 10) = fR1 arc_08_06
   \<and> 0 \<le> fR1 arc_08_06 \<and> PixeltoY pad0 (99 - VtoPixel pad0 0) = 1 / 2
   \<and> fR1 (SetBBoxY1_double host0 99 arc_08_06) = - (1 / 2 ^ 54)
   \<and> fR1 (SetBBoxY1_double host0 99 arc_08_06) < 0
   \<and> SetBBoxX2 host0 1 arc_08_03 = arc_08_03 \<and> SetBBoxY1 host0 99 arc_08_06 = arc_08_06"
proof -
  have v: "fX1 arc_08_03 = 3602879701896397 / 2 ^ 52"
    "fR1 arc_08_03 = 5404319552844595 / 2 ^ 54"
    "fY1 arc_08_06 = 3602879701896397 / 2 ^ 52"
    "fR1 arc_08_06 = 5404319552844595 / 2 ^ 53"
    by (simp_all add: arc_08_03_def arc_08_06_def)
  have lit: "round_double (8 / 10) = fX1 arc_08_03" "round_double (3 / 10) = fR1 arc_08_03"
    "round_double (8 / 10) = fY1 arc_08_06" "round_double (6 / 10) = fR1 arc_08_06"
    unfolding v by (rule literal_08 literal_03 literal_06)+
  have nonneg: "0 \<le> fR1 arc_08_03" "0 \<le> fR1 arc_08_06"
    unfolding v by simp_all
  have pix: "PixeltoX pad0 1 = 1 / 2" "PixeltoY pad0 (99 - VtoPixel pad0 0) = 1 / 2"
    by (simp_all add: pad0_def)
  have x: "fR1 (SetBBoxX2_double host0 1 arc_08_03) = - (1 / 2 ^ 55)"
    "fR1 (SetBBoxX2_double host0 1 arc_08_03) < 0"
    by (simp_all add: SetBBoxX2_double_08_03)
  have y: "fR1 (SetBBoxY1_double host0 99 arc_08_06) = - (1 / 2 ^ 54)"
    "fR1 (SetBBoxY1_double host0 99 arc_08_06) < 0"
    by (simp_all add: SetBBoxY1_double_08_06)
  show ?thesis
    by (intro conjI lit nonneg pix x y exact_arithmetic_refuses)
qed

subsection \<open>Moving the left and the right edge to where they are\<close>








subsection \<open>The hit test\<close>

text \<open>
  The angle of the query point, brought into the range from 0 to 2 \<open>\<pi>\<close> and converted, is
  at least 0 and below 360 degrees. When \<open>fPhimin < fPhimax\<close> the hit test answers 9999
  for an angle below \<open>fPhimin\<close> or above \<open>fPhimax\<close> and the truncated distance to the
  circle otherwise.
\<close>

lemma ATan2_range: "- pi < ATan2 y x \<and> ATan2 y x \<le> pi"
proof -
  have b: "- (pi / 2) < arctan (y / x)" "arctan (y / x) < pi / 2"
    by (rule arctan_lbound, rule arctan_ubound)
  consider "0 < x" | "x < 0" "0 \<le> y" | "x < 0" "y < 0" | "x = 0"
    by linarith
  then show ?thesis
  proof cases
    case 1
    then have "ATan2 y x = arctan (y / x)" by (simp add: ATan2_def)
    with b pi_gt_zero show ?thesis by (intro conjI; linarith)
  next
    case 2
    then have "y / x \<le> 0" by (simp add: divide_nonneg_neg)
    then have "arctan (y / x) \<le> 0" by (simp add: arctan_le_zero_iff)
    moreover have "ATan2 y x = arctan (y / x) + pi" using 2 by (simp add: ATan2_def)
    ultimately show ?thesis using b pi_gt_zero by (intro conjI; linarith)
  next
    case 3
    then have "0 < y / x" by (simp add: divide_neg_neg)
    then have "0 < arctan (y / x)" by (simp add: zero_less_arctan_iff)
    moreover have "ATan2 y x = arctan (y / x) - pi" using 3 by (simp add: ATan2_def)
    ultimately show ?thesis using b pi_gt_zero by (intro conjI; linarith)
  next
    case 4
    then have "ATan2 y x = 0 \<or> ATan2 y x = pi / 2 \<or> ATan2 y x = - pi / 2"
      by (simp add: ATan2_def)
    with pi_gt_zero show ?thesis by (elim disjE; intro conjI; linarith)
  qed
qed

lemma angle_in_degrees_range:
  "0 \<le> (if ATan2 y x < 0 then ATan2 y x + 2 * pi else ATan2 y x) * 180 / pi
   \<and> (if ATan2 y x < 0 then ATan2 y x + 2 * pi else ATan2 y x) * 180 / pi < 360"
proof -
  have p: "0 < pi" by simp
  define t where "t = (if ATan2 y x < 0 then ATan2 y x + 2 * pi else ATan2 y x)"
  have "0 \<le> t" "t < 2 * pi"
    using ATan2_range [of y x] p by (auto simp add: t_def)
  then have "0 \<le> t * 180 / pi \<and> t * 180 / pi < 360"
    using p by (simp add: field_simps)
  then show ?thesis by (simp add: t_def)
qed

lemma DistancetoPrimitive_then_branch:
  "gPad h = Some p \<Longrightarrow> fPhimin a < fPhimax a \<Longrightarrow>
   DistancetoPrimitive h px py a =
     (let pxc = XtoAbsPixel p (fX1 a);
          pyc = YtoAbsPixel p (fY1 a);
          dist = sqrt (real_of_int ((pxc - px) * (pxc - px) + (pyc - py) * (pyc - py)));
          phi = ATan2 (real_of_int (pyc - py) / dist) (real_of_int (px - pxc) / dist);
          phi = (if phi < 0 then phi + 2 * pi else phi) * 180 / pi
      in if dist = 0 then Inl DivisionByZero
         else if phi < fPhimin a \<or> fPhimax a < phi then Inr 9999
         else Inr (Int_t_of \<bar>dist - real_of_int (XtoPixel p (fR1 a) - XtoPixel p 0)\<bar>))"
  by (simp add: DistancetoPrimitive_def Let_def)

text \<open>
  Without a host the hit test answers 9999. When \<open>fPhimax \<le> fPhimin\<close> the second branch
  of the angle test is taken, and its condition \<open>fPhimin < phi \<and> phi < fPhimax\<close> holds for
  no angle: every point is accepted.
\<close>

lemma DistancetoPrimitive_no_host:
  "gPad h = None \<Longrightarrow> DistancetoPrimitive h px py a = Inr 9999"
  by (simp add: DistancetoPrimitive_def)

lemma DistancetoPrimitive_else_branch:
  "gPad h = Some p \<Longrightarrow> fPhimax a \<le> fPhimin a \<Longrightarrow>
   DistancetoPrimitive h px py a =
     (let pxc = XtoAbsPixel p (fX1 a);
          pyc = YtoAbsPixel p (fY1 a);
          dist = sqrt (real_of_int ((pxc - px) * (pxc - px) + (pyc - py) * (pyc - py)))
      in if dist = 0 then Inl DivisionByZero
         else Inr (Int_t_of \<bar>dist - real_of_int (XtoPixel p (fR1 a) - XtoPixel p 0)\<bar>))"
  by (simp add: DistancetoPrimitive_def Let_def)

text \<open>
  Claim C1, at an input where the program and the claim part. The arc spans from 270
  degrees through 360 to 90 degrees, around the pixel (100, 50) with a pixel radius of 20.
  The pixel (80, 50) lies on the circle at 180 degrees, outside the span. The hit test
  answers the distance 0 and not 9999; with the span from 0 to 90 degrees, which does not
  wrap, the same point is answered with 9999.
\<close>

theorem DistancetoPrimitive_wraparound:
  "fPhimin arc_wrap = 270 \<and> fPhimax arc_wrap = 90
   \<and> DistancetoPrimitive host0 80 50 arc_wrap = Inr 0
   \<and> DistancetoPrimitive host0 80 50 (arc_wrap\<lparr>fPhimin := 0\<rparr>) = Inr 9999"
  by (simp add: DistancetoPrimitive_def host0_def pad0_def arc_wrap_def arc0_def Let_def
      ATan2_def Int_t_of_def)

text \<open>
  Claim C10, as the program has it. The divisor \<open>dist\<close> is zero, and the guarded division
  of the embedding reaches its error branch, exactly when a host is attached and the query
  point is the pixel center of the arc.
\<close>

theorem DistancetoPrimitive_divides_by_zero:
  "(DistancetoPrimitive h px py a = Inl DivisionByZero) =
   (\<exists>p. gPad h = Some p \<and> px = XtoAbsPixel p (fX1 a) \<and> py = YtoAbsPixel p (fY1 a))"
proof (cases "gPad h")
  case None
  then show ?thesis by (simp add: DistancetoPrimitive_def)
next
  case (Some p)
  have z: "((XtoAbsPixel p (fX1 a) - px) * (XtoAbsPixel p (fX1 a) - px)
            + (YtoAbsPixel p (fY1 a) - py) * (YtoAbsPixel p (fY1 a) - py) = 0)
           = (px = XtoAbsPixel p (fX1 a) \<and> py = YtoAbsPixel p (fY1 a))"
    by (auto simp add: sum_squares_eq_zero_iff)
  have s: "(sqrt (real_of_int ((XtoAbsPixel p (fX1 a) - px) * (XtoAbsPixel p (fX1 a) - px)
            + (YtoAbsPixel p (fY1 a) - py) * (YtoAbsPixel p (fY1 a) - py))) = 0)
           = (px = XtoAbsPixel p (fX1 a) \<and> py = YtoAbsPixel p (fY1 a))"
    unfolding real_sqrt_eq_zero_cancel_iff of_int_eq_0_iff z ..
  show ?thesis
    using s by (simp add: DistancetoPrimitive_def Some Let_def)
qed

text \<open>On the concrete host the pixel center of the arc is (100, 50).\<close>

lemma DistancetoPrimitive_at_pixel_center:
  "DistancetoPrimitive host0 100 50 arc0 = Inl DivisionByZero"
  by (simp add: DistancetoPrimitive_def host0_def pad0_def arc0_def)

subsection \<open>The process-wide defaults at construction\<close>

text \<open>
  Claim C2, as the program has it. The constructor stores the amplitude and the wavelength
  it is called with, whatever \<open>fgDefaultAmplitude\<close> and \<open>fgDefaultWaveLength\<close> hold; of the
  three defaults only \<open>fgDefaultIsCurly\<close> is read. \<^verbatim>\<open>SetDefaultAmplitude\<close> changes what
  \<^verbatim>\<open>GetDefaultAmplitude\<close> returns. The default constructor leaves the amplitude of the
  base-class part.
\<close>

theorem constructor_ignores_default_amplitude:
  "fAmplitude (TCurlyArc_new h (SetDefaultAmplitude v s) base x1 y1 rad phimin phimax wl amp) = amp
   \<and> fWaveLength (TCurlyArc_new h (SetDefaultWaveLength w s) base x1 y1 rad phimin phimax wl amp) = wl
   \<and> fIsCurly (TCurlyArc_new h (SetDefaultIsCurly c s) base x1 y1 rad phimin phimax wl amp) = c
   \<and> GetDefaultAmplitude (SetDefaultAmplitude v s) = v
   \<and> fAmplitude (TCurlyArc_default base) = fAmplitude base"
  by (simp add: TCurlyArc_new_def TCurlyArc_default_def SetDefaultAmplitude_def
      SetDefaultWaveLength_def SetDefaultIsCurly_def GetDefaultAmplitude_def Let_def Build_fields)

subsection \<open>The edge setters and the polyline\<close>

lemma edge_setters_keep_polyline:
  "xv (SetBBoxX1 h x a) = xv a \<and> yv (SetBBoxX1 h x a) = yv a"
  "xv (SetBBoxX2 h x a) = xv a \<and> yv (SetBBoxX2 h x a) = yv a"
  "xv (SetBBoxY1 h y a) = xv a \<and> yv (SetBBoxY1 h y a) = yv a"
  "xv (SetBBoxY2 h y a) = xv a \<and> yv (SetBBoxY2 h y a) = yv a"
  by (simp_all add: SetBBoxX1_def SetBBoxX2_def SetBBoxY1_def SetBBoxY2_def Let_def
      split: option.splits)

lemma Build_host0_xv:
  "xv (Build host0 a) =
     [Build_rPix (gPad host0) (fR1 a) * cos (fPhimin a * pi / 180) * (1 / 2) + fX1 a,
      (1 + Build_rPix (gPad host0) (fR1 a)) * cos (fPhimin a * pi / 180) * (1 / 2) + fX1 a]"
  by (simp add: Build_def Let_def TCurlyLine_Build_call_def host0_def Build_loop.simps
      Build_pixeltoX_def pad0_def)

text \<open>
  Claim C3, as the program has it. The four edge setters return with the point arrays
  they found. On the concrete host \<^verbatim>\<open>SetBBoxX2\<close> moves the center of the arc from 50 to 60
  and doubles its radius, and the polyline still starts at 60, where a rebuild puts its
  start at 80; \<^verbatim>\<open>SetBBoxCenterX\<close>, which calls \<^verbatim>\<open>Build\<close>, returns with the rebuilt polyline.
\<close>

theorem edge_setter_without_Build:
  "xv (SetBBoxX1 h x a) = xv a \<and> yv (SetBBoxX1 h x a) = yv a
   \<and> xv (SetBBoxX2 h x a) = xv a \<and> yv (SetBBoxX2 h x a) = yv a
   \<and> xv (SetBBoxY1 h y a) = xv a \<and> yv (SetBBoxY1 h y a) = yv a
   \<and> xv (SetBBoxY2 h y a) = xv a \<and> yv (SetBBoxY2 h y a) = yv a
   \<and> fX1 (SetBBoxX2 host0 160 arc0) = 60 \<and> fR1 (SetBBoxX2 host0 160 arc0) = 20
   \<and> xv (SetBBoxX2 host0 160 arc0) = [60, 121 / 2]
   \<and> xv (Build host0 (SetBBoxX2 host0 160 arc0)) = [80, 161 / 2]
   \<and> xv (SetBBoxCenterX host0 120 arc0) = [70, 141 / 2]"
proof -
  have v: "fX1 (SetBBoxX2 host0 160 arc0) = 60" "fR1 (SetBBoxX2 host0 160 arc0) = 20"
    "fPhimin (SetBBoxX2 host0 160 arc0) = 0" "xv arc0 = [60, 121 / 2]"
    by (simp_all add: SetBBoxX2_def host0_def pad0_def arc0_def Let_def)
  have c: "SetBBoxCenterX host0 120 arc0 = Build host0 (arc0\<lparr>fX1 := 60\<rparr>)"
    by (simp add: SetBBoxCenterX_def host0_def pad0_def)
  have r: "Build_rPix (gPad host0) 20 = 40" "Build_rPix (gPad host0) 10 = 20"
    by (simp_all add: Build_rPix_def Build_pixeltoX_def host0_def pad0_def)
  show ?thesis
    by (simp add: edge_setters_keep_polyline Build_host0_xv v c r) (simp add: arc0_def r)
qed

subsection \<open>Saving and executing again\<close>

text \<open>
  Executing the saved statements again gives an object with the seven numbers of the
  original. Its mode is the original one only if the original is wavy or the process-wide
  default is curly when the statements run.
\<close>

lemma exec_SavePrimitive:
  "\<exists>a'. exec_stmts h s base (SavePrimitive classSaved a) = Some a'
     \<and> fX1 a' = fX1 a \<and> fY1 a' = fY1 a \<and> fR1 a' = fR1 a
     \<and> fPhimin a' = fPhimin a \<and> fPhimax a' = fPhimax a
     \<and> fWaveLength a' = fWaveLength a \<and> fAmplitude a' = fAmplitude a
     \<and> fIsCurly a' = (fIsCurly a \<and> fgDefaultIsCurly s)"
  by (simp add: exec_stmts_def SavePrimitive_def TCurlyArc_new_def SetWavy_def Let_def
      Build_fields)

lemma arc0_constructed:
  "TCurlyArc_new host0 statics_init base0 50 25 10 0 180 (2 / 100) (1 / 100) = arc0"
  by (simp add: TCurlyArc_new_def Build_def Let_def host0_def pad0_def base0_def arc0_def
      statics_init_def Build_pixeltoX_def Build_pixeltoY_def Build_rPix_def
      TCurlyLine_Build_call_def Build_loop.simps)

text \<open>
  Claim C5, at an input where the program and the claim part. A curly arc, constructed
  while the default mode is curly, is saved as a construction call without a toggle.
  Executed after \<^verbatim>\<open>SetDefaultIsCurly(kFALSE)\<close>, the statements give a wavy arc.
\<close>

theorem SavePrimitive_loses_curly:
  "TCurlyArc_new host0 statics_init base0 50 25 10 0 180 (2 / 100) (1 / 100) = arc0
   \<and> fIsCurly arc0
   \<and> SavePrimitive False arc0 =
       [New_TCurlyArc True 50 25 10 0 180 (2 / 100) (1 / 100), Line_Attributes, Call_Draw]
   \<and> map_option fIsCurly
        (exec_stmts host0 (SetDefaultIsCurly False statics_init) base0 (SavePrimitive False arc0))
       = Some False"
proof -
  obtain a' where "exec_stmts host0 (SetDefaultIsCurly False statics_init) base0
      (SavePrimitive False arc0) = Some a'"
    and "fIsCurly a' = (fIsCurly arc0 \<and> fgDefaultIsCurly (SetDefaultIsCurly False statics_init))"
    using exec_SavePrimitive [of host0 "SetDefaultIsCurly False statics_init" base0 False arc0]
    by blast
  then have "map_option fIsCurly
        (exec_stmts host0 (SetDefaultIsCurly False statics_init) base0 (SavePrimitive False arc0))
       = Some False"
    by (simp add: SetDefaultIsCurly_def)
  moreover have "SavePrimitive False arc0 =
       [New_TCurlyArc True 50 25 10 0 180 (2 / 100) (1 / 100), Line_Attributes, Call_Draw]"
    "fIsCurly arc0"
    by (simp_all add: SavePrimitive_def arc0_def)
  ultimately show ?thesis
    using arc0_constructed by simp
qed

subsection \<open>What the edge setters do to the box\<close>

text \<open>
  A request past the opposite edge, and every request without a host, leaves the object
  as it is. An accepted move of the left or the right edge puts that edge at the request
  and keeps the other. An accepted move of the top edge puts the center at the request
  minus the vertical radius the arc had before, and a move of the bottom edge puts it at
  the request plus that radius: both horizontal edges move by half of the distance between
  the request and the old position of the moved edge.
\<close>

lemma edge_setter_refuses:
  "gPad h = Some p \<Longrightarrow> PixeltoX p x > fX1 a + fR1 a \<Longrightarrow> SetBBoxX1 h x a = a"
  "gPad h = Some p \<Longrightarrow> PixeltoX p x < fX1 a - fR1 a \<Longrightarrow> SetBBoxX2 h x a = a"
  "gPad h = Some p \<Longrightarrow>
     PixeltoY p (y - VtoPixel p 0) < fY1 a - fR1 a * \<bar>GetY2 p - GetY1 p\<bar> / \<bar>GetX2 p - GetX1 p\<bar> \<Longrightarrow>
     SetBBoxY1 h y a = a"
  "gPad h = Some p \<Longrightarrow>
     PixeltoY p (y - VtoPixel p 0) > fY1 a + fR1 a * \<bar>GetY2 p - GetY1 p\<bar> / \<bar>GetX2 p - GetX1 p\<bar> \<Longrightarrow>
     SetBBoxY2 h y a = a"
  by (simp_all add: SetBBoxX1_def SetBBoxX2_def SetBBoxY1_def SetBBoxY2_def Let_def)

lemma edge_setter_no_host:
  "gPad h = None \<Longrightarrow>
     SetBBoxX1 h x a = a \<and> SetBBoxX2 h x a = a \<and> SetBBoxY1 h y a = a \<and> SetBBoxY2 h y a = a"
  by (simp add: SetBBoxX1_def SetBBoxX2_def SetBBoxY1_def SetBBoxY2_def)

lemma SetBBoxX1_edges:
  "gPad h = Some p \<Longrightarrow> PixeltoX p x \<le> fX1 a + fR1 a \<Longrightarrow>
   fX1 (SetBBoxX1 h x a) - fR1 (SetBBoxX1 h x a) = PixeltoX p x
   \<and> fX1 (SetBBoxX1 h x a) + fR1 (SetBBoxX1 h x a) = fX1 a + fR1 a"
  by (simp add: SetBBoxX1_def Let_def field_simps)

lemma SetBBoxX2_edges:
  "gPad h = Some p \<Longrightarrow> fX1 a - fR1 a \<le> PixeltoX p x \<Longrightarrow>
   fX1 (SetBBoxX2 h x a) + fR1 (SetBBoxX2 h x a) = PixeltoX p x
   \<and> fX1 (SetBBoxX2 h x a) - fR1 (SetBBoxX2 h x a) = fX1 a - fR1 a"
  by (simp add: SetBBoxX2_def Let_def field_simps)

lemma SetBBoxY1_edges:
  assumes "gPad h = Some p" and "pad_nondegenerate p"
    and "k = \<bar>GetY2 p - GetY1 p\<bar> / \<bar>GetX2 p - GetX1 p\<bar>"
    and "y1 = PixeltoY p (y - VtoPixel p 0)"
    and "fY1 a - fR1 a * k \<le> y1"
  shows "fY1 (SetBBoxY1 h y a) - fR1 (SetBBoxY1 h y a) * k = fY1 a - fR1 a * k + (y1 - (fY1 a + fR1 a * k)) / 2
     \<and> fY1 (SetBBoxY1 h y a) + fR1 (SetBBoxY1 h y a) * k = y1 + (y1 - (fY1 a + fR1 a * k)) / 2"
proof -
  have k: "k \<noteq> 0"
    using assms(2,3) by (simp add: pad_nondegenerate_def)
  have "fR1 (SetBBoxY1 h y a) = (y1 - fY1 a + fR1 a * k) * (1 / 2) / k"
    "fY1 (SetBBoxY1 h y a) = y1 - fR1 a * k"
    using assms(1,3,4,5) by (simp_all add: SetBBoxY1_def Let_def)
  then show ?thesis
    using k by (simp add: field_simps)
qed

lemma SetBBoxY2_edges:
  assumes "gPad h = Some p" and "pad_nondegenerate p"
    and "k = \<bar>GetY2 p - GetY1 p\<bar> / \<bar>GetX2 p - GetX1 p\<bar>"
    and "y2 = PixeltoY p (y - VtoPixel p 0)"
    and "y2 \<le> fY1 a + fR1 a * k"
  shows "fY1 (SetBBoxY2 h y a) + fR1 (SetBBoxY2 h y a) * k = fY1 a + fR1 a * k + (y2 - (fY1 a - fR1 a * k)) / 2
     \<and> fY1 (SetBBoxY2 h y a) - fR1 (SetBBoxY2 h y a) * k = y2 + (y2 - (fY1 a - fR1 a * k)) / 2"
proof -
  have k: "k \<noteq> 0"
    using assms(2,3) by (simp add: pad_nondegenerate_def)
  have "fR1 (SetBBoxY2 h y a) = (fY1 a + fR1 a * k - y2) * (1 / 2) / k"
    "fY1 (SetBBoxY2 h y a) = y2 + fR1 a * k"
    using assms(1,3,4,5) by (simp_all add: SetBBoxY2_def Let_def)
  then show ?thesis
    using k by (simp add: field_simps)
qed

text \<open>
  Claim C6, at an input where the program and the claim part. On the concrete host the
  box of the arc has its top in pixel row 40 and its bottom in row 60. \<^verbatim>\<open>SetBBoxY1\<close>
  with row 20 puts the top in row 10 and the bottom in row 50; \<^verbatim>\<open>SetBBoxY2\<close> with row 80
  puts the bottom in row 90 and the top in row 50. \<^verbatim>\<open>SetBBoxX1\<close> with column 60 puts
  the left edge in column 60 and keeps the right edge in column 120.
\<close>

theorem SetBBoxY_moves_opposite_edge:
  "fY (GetBBox host0 arc0) = 40
   \<and> fY (GetBBox host0 arc0) + fHeight (GetBBox host0 arc0) = 60
   \<and> fY (GetBBox host0 (SetBBoxY1 host0 20 arc0)) = 10
   \<and> fY (GetBBox host0 (SetBBoxY1 host0 20 arc0))
       + fHeight (GetBBox host0 (SetBBoxY1 host0 20 arc0)) = 50
   \<and> fY (GetBBox host0 (SetBBoxY2 host0 80 arc0)) = 50
   \<and> fY (GetBBox host0 (SetBBoxY2 host0 80 arc0))
       + fHeight (GetBBox host0 (SetBBoxY2 host0 80 arc0)) = 90
   \<and> fX (GetBBox host0 arc0) = 80
   \<and> fX (GetBBox host0 arc0) + fWidth (GetBBox host0 arc0) = 120
   \<and> fX (GetBBox host0 (SetBBoxX1 host0 60 arc0)) = 60
   \<and> fX (GetBBox host0 (SetBBoxX1 host0 60 arc0))
       + fWidth (GetBBox host0 (SetBBoxX1 host0 60 arc0)) = 120"
  by (simp add: GetBBox_def SetBBoxY1_def SetBBoxY2_def SetBBoxX1_def host0_def pad0_def arc0_def
      Let_def Short_t_of_def UShort_t_of_def)

end
